theory Spec2Isabelle
  imports Complex_Main "HOL-Library.Sublist"
begin

section \<open>The process provider of chaoslib: \<open>chaoslib/provider/process.py\<close>\<close>

text \<open>
  The module has two functions, \<open>validate_process_activity\<close> and
  \<open>run_process_activity\<close>. Both read an activity, a Python dictionary whose values are
  dynamically typed, and both call the operating system (\<open>shutil.which\<close>,
  \<open>os.access\<close>, \<open>subprocess.run\<close>). The embedding keeps the dynamic typing (a
  datatype of Python values), turns every exception into a value of a sum type, and
  takes the operating system as a record of functions.
\<close>

subsection \<open>Python values\<close>

text \<open>
  A float is an IEEE double: a finite one is the rational number it denotes (both zeros
  are the rational 0), the other three are the infinities and NaN. No float arithmetic
  is done by the module; only truth value and integer conversion are needed.
\<close>

datatype pyfloat = Finite rat | PosInf | NegInf | NaN

datatype pyval =
    PNone
  | PBool bool
  | PInt int
  | PFloat pyfloat
  | PStr string
  | PList "pyval list"
  | PDict "(pyval \<times> pyval) list"

text \<open>A dictionary keeps its items in insertion order: an association list.\<close>

type_synonym pydict = "(pyval \<times> pyval) list"

datatype error =
    InvalidActivity string
  | FailedActivity string
  | KeyError string
  | AttributeError
  | TypeError
  | ValueError
  | OverflowError
  | OSLevelError string

text \<open>\<open>bool(v)\<close>, the truth value that \<open>if v\<close>, \<open>not v\<close>, \<open>and\<close> and \<open>or\<close> test.\<close>

fun truthy :: "pyval \<Rightarrow> bool" where
  "truthy PNone = False"
| "truthy (PBool b) = b"
| "truthy (PInt i) = (i \<noteq> 0)"
| "truthy (PFloat f) = (f \<noteq> Finite 0)"
| "truthy (PStr s) = (s \<noteq> [])"
| "truthy (PList xs) = (xs \<noteq> [])"
| "truthy (PDict kvs) = (kvs \<noteq> [])"

text \<open>\<open>isinstance(v, int)\<close>: \<open>bool\<close> is a subclass of \<open>int\<close>.\<close>

fun isinstance_int :: "pyval \<Rightarrow> bool" where
  "isinstance_int (PInt i) = True"
| "isinstance_int (PBool b) = True"
| "isinstance_int v = False"

subsection \<open>Dictionary access\<close>

text \<open>\<open>d[k]\<close> for a string key: \<open>KeyError\<close> when the key is missing.\<close>

definition getitem :: "pydict \<Rightarrow> string \<Rightarrow> error + pyval" where
  "getitem d k = (case map_of d (PStr k) of None \<Rightarrow> Inl (KeyError k) | Some v \<Rightarrow> Inr v)"

text \<open>\<open>d.get(k, dflt)\<close>; \<open>d.get(k)\<close> is \<open>d.get(k, None)\<close>.\<close>

definition dict_get :: "pydict \<Rightarrow> string \<Rightarrow> pyval \<Rightarrow> pyval" where
  "dict_get d k dflt = (case map_of d (PStr k) of None \<Rightarrow> dflt | Some v \<Rightarrow> v)"

text \<open>
  The provider is whatever value the activity holds under \<open>"provider"\<close>. Of the values
  modelled, only a dictionary has \<open>get\<close> and \<open>items\<close> (\<open>AttributeError\<close> otherwise);
  subscripting a dictionary's missing key is a \<open>KeyError\<close>, subscripting a string or a
  list with a string, or \<open>None\<close>, a number or a boolean with anything, a \<open>TypeError\<close>.
\<close>

fun val_get :: "pyval \<Rightarrow> string \<Rightarrow> pyval \<Rightarrow> error + pyval" where
  "val_get (PDict d) k dflt = Inr (dict_get d k dflt)"
| "val_get v k dflt = Inl AttributeError"

fun val_getitem :: "pyval \<Rightarrow> string \<Rightarrow> error + pyval" where
  "val_getitem (PDict d) k = getitem d k"
| "val_getitem v k = Inl TypeError"

fun val_items :: "pyval \<Rightarrow> error + pydict" where
  "val_items (PDict d) = Inr d"
| "val_items v = Inl AttributeError"

subsection \<open>Flattening the arguments (lines 41 and 42)\<close>

text \<open>
  \<open>itertools.chain.from_iterable(arguments.items())\<close> yields key, value, key, value, ...
  in the order of the items.
\<close>

definition chain_items :: "pydict \<Rightarrow> pyval list" where
  "chain_items kvs = concat (map (\<lambda>(k, v). [k, v]) kvs)"

text \<open>
  \<open>[p for p in chain if p not in (None, "")]\<close>: membership in the tuple is identity or
  \<open>==\<close>, and among the values modelled only \<open>None\<close> equals \<open>None\<close> and only the empty
  string equals \<open>""\<close>.
\<close>

definition flatten_arguments :: "pydict \<Rightarrow> pyval list" where
  "flatten_arguments kvs = filter (\<lambda>p. p \<noteq> PNone \<and> p \<noteq> PStr []) (chain_items kvs)"

subsection \<open>\<open>int(v)\<close> and the text of an integer\<close>

text \<open>
  \<open>int\<close> of a string: surrounding white space is dropped, one sign is allowed, then
  decimal digits, where a single underscore may stand between two digits. Characters
  are read as the code points 0 to 255. The white space \<open>int\<close> drops is tab, line
  feed, vertical tab, form feed, carriage return and space (9 to 13 and 32), and of the
  code points above 127 the two Unicode spaces, 133 and 160; the separators 28 to 31 are
  not dropped, and a string that holds one is rejected.
\<close>

definition is_space :: "char \<Rightarrow> bool" where
  "is_space c =
     (let n = (of_char c :: nat)
      in (9 \<le> n \<and> n \<le> 13) \<or> n = 32 \<or> n = 133 \<or> n = 160)"

definition strip :: "string \<Rightarrow> string" where
  "strip s = rev (dropWhile is_space (rev (dropWhile is_space s)))"

definition is_digit :: "char \<Rightarrow> bool" where
  "is_digit c = (48 \<le> (of_char c :: nat) \<and> (of_char c :: nat) \<le> 57)"

definition digit_val :: "char \<Rightarrow> nat" where
  "digit_val c = of_char c - 48"

fun digits_from :: "nat \<Rightarrow> string \<Rightarrow> nat option" where
  "digits_from acc [] = Some acc"
| "digits_from acc (c # cs) =
     (if is_digit c then digits_from (10 * acc + digit_val c) cs
      else if c = CHR ''_'' then
        (case cs of
           [] \<Rightarrow> None
         | d # ds \<Rightarrow> if is_digit d then digits_from acc cs else None)
      else None)"

fun parse_nat :: "string \<Rightarrow> nat option" where
  "parse_nat [] = None"
| "parse_nat (c # cs) = (if is_digit c then digits_from (digit_val c) cs else None)"

definition parse_int :: "string \<Rightarrow> int option" where
  "parse_int s =
     (case strip s of
        [] \<Rightarrow> None
      | c # cs \<Rightarrow>
          if c = CHR ''-'' then map_option (\<lambda>n. - int n) (parse_nat cs)
          else if c = CHR ''+'' then map_option int (parse_nat cs)
          else map_option int (parse_nat (c # cs)))"

text \<open>A finite float is truncated towards zero.\<close>

definition trunc :: "rat \<Rightarrow> int" where
  "trunc r = (if 0 \<le> r then \<lfloor>r\<rfloor> else \<lceil>r\<rceil>)"

fun py_int :: "pyval \<Rightarrow> error + int" where
  "py_int (PInt i) = Inr i"
| "py_int (PBool b) = Inr (if b then 1 else 0)"
| "py_int (PFloat (Finite r)) = Inr (trunc r)"
| "py_int (PFloat NaN) = Inl ValueError"
| "py_int (PFloat PosInf) = Inl OverflowError"
| "py_int (PFloat NegInf) = Inl OverflowError"
| "py_int (PStr s) = (case parse_int s of None \<Rightarrow> Inl ValueError | Some i \<Rightarrow> Inr i)"
| "py_int PNone = Inl TypeError"
| "py_int (PList xs) = Inl TypeError"
| "py_int (PDict kvs) = Inl TypeError"

text \<open>\<open>str(i)\<close> of an integer, as \<open>"{c}".format(c=i)\<close> writes it.\<close>

fun str_nat :: "nat \<Rightarrow> string" where
  "str_nat n =
     (if n < 10 then [char_of (48 + n)]
      else str_nat (n div 10) @ [char_of (48 + n mod 10)])"

declare str_nat.simps [simp del]

definition str_int :: "int \<Rightarrow> string" where
  "str_int i = (if i < 0 then CHR ''-'' # str_nat (nat (- i)) else str_nat (nat i))"

text \<open>
  What \<open>"{x}".format(x=v)\<close> writes for a value. The text of a float, a list or a
  dictionary is the interpreter's; it is taken as a parameter.
\<close>

fun py_format :: "(pyval \<Rightarrow> string) \<Rightarrow> pyval \<Rightarrow> string" where
  "py_format other (PStr s) = s"
| "py_format other PNone = ''None''"
| "py_format other (PBool b) = (if b then ''True'' else ''False'')"
| "py_format other (PInt i) = str_int i"
| "py_format other v = other v"

text \<open>\<open>'{x}'\<close> in a format string: the text between two single quotes.\<close>

definition quoted :: "string \<Rightarrow> string" where
  "quoted s = [CHR 0x27] @ s @ [CHR 0x27]"

subsection \<open>The operating system\<close>

text \<open>
  What \<open>subprocess.run\<close> can do: the process ends (return code, standard output,
  standard error, both decoded as text), the timeout expires (\<open>subprocess.run\<close> then
  kills the child itself and raises \<open>TimeoutExpired\<close>), or another exception is raised,
  named by its class.
\<close>

datatype proc_outcome =
    Completed int string string
  | TimeoutExpired
  | Raised string

text \<open>
  \<open>which\<close> is \<open>shutil.which\<close> on a string, \<open>access_x p\<close> is
  \<open>os.access(p, os.X_OK)\<close>, \<open>subprocess_run argv timeout\<close> is the call of lines 47 to
  50 (the environment it inherits is part of the world), and \<open>repr_of\<close> is the text
  \<open>format\<close> writes for floats, lists and dictionaries.
\<close>

record os_world =
  which :: "string \<Rightarrow> string option"
  access_x :: "string \<Rightarrow> bool"
  subprocess_run :: "string list \<Rightarrow> pyval \<Rightarrow> proc_outcome"
  repr_of :: "pyval \<Rightarrow> string"

text \<open>\<open>shutil.which(v)\<close> and \<open>os.access(v, os.X_OK)\<close> on a value: a \<open>TypeError\<close>
  unless it is a string.\<close>

fun which_val :: "os_world \<Rightarrow> pyval \<Rightarrow> error + pyval" where
  "which_val w (PStr p) = Inr (case which w p of None \<Rightarrow> PNone | Some q \<Rightarrow> PStr q)"
| "which_val w v = Inl TypeError"

fun access_val :: "os_world \<Rightarrow> pyval \<Rightarrow> error + bool" where
  "access_val w (PStr p) = Inr (access_x w p)"
| "access_val w v = Inl TypeError"

subsection \<open>Program state and exceptions\<close>

text \<open>
  The caller hands \<open>validate_process_activity\<close> a reference to the activity, a mutable
  dictionary, and the function queries the file system. The state a call can see or
  change is therefore the activity object and the world; a statement is a function from
  the state to an outcome (the exception raised, or the value) and the state after it.
  Local variables are bound by \<open>bindE\<close> and vanish with the call.
\<close>

record pystate =
  activity_obj :: pydict
  world :: os_world

type_synonym 'a py = "pystate \<Rightarrow> (error + 'a) \<times> pystate"

definition returnE :: "'a \<Rightarrow> 'a py" where
  "returnE x = (\<lambda>s. (Inr x, s))"

definition raise :: "error \<Rightarrow> 'a py" where
  "raise e = (\<lambda>s. (Inl e, s))"

definition bindE :: "'a py \<Rightarrow> ('a \<Rightarrow> 'b py) \<Rightarrow> 'b py" where
  "bindE m f = (\<lambda>s. case m s of (Inl e, s') \<Rightarrow> (Inl e, s') | (Inr x, s') \<Rightarrow> f x s')"

text \<open>An expression that touches no state: its outcome, and the state as it was.\<close>

definition liftE :: "error + 'a \<Rightarrow> 'a py" where
  "liftE r = (\<lambda>s. (r, s))"

text \<open>\<open>activity[k]\<close> and \<open>activity.get(k)\<close> read the activity object.\<close>

definition activity_getitem :: "string \<Rightarrow> pyval py" where
  "activity_getitem k = (\<lambda>s. (getitem (activity_obj s) k, s))"

definition activity_get :: "string \<Rightarrow> pyval py" where
  "activity_get k = (\<lambda>s. (Inr (dict_get (activity_obj s) k PNone), s))"

text \<open>\<open>shutil.which(v)\<close> and \<open>os.access(v, os.X_OK)\<close> read the world.\<close>

definition shutil_which :: "pyval \<Rightarrow> pyval py" where
  "shutil_which v = (\<lambda>s. (which_val (world s) v, s))"

definition os_access :: "pyval \<Rightarrow> bool py" where
  "os_access v = (\<lambda>s. (access_val (world s) v, s))"

definition format_val :: "pyval \<Rightarrow> string py" where
  "format_val v = (\<lambda>s. (Inr (py_format (repr_of (world s)) v), s))"

subsection \<open>\<open>validate_process_activity\<close> (lines 65 to 99)\<close>

text \<open>
  Statement by statement. The second binding of \<open>path\<close> (line 90) shadows the first, as
  the assignment overwrites the variable: the message of line 93 formats the result of
  \<open>shutil.which\<close>, not the declared path.
\<close>

definition validate_process_activity :: "unit py" where
  "validate_process_activity =
     bindE (activity_getitem ''name'') (\<lambda>name.
     bindE (activity_getitem ''provider'') (\<lambda>provider.
     bindE (activity_get ''expected_return_code'') (\<lambda>expected_return_code.
       if truthy expected_return_code \<and> \<not> isinstance_int expected_return_code then
         raise (InvalidActivity ''return code of a process activity must be an integer'')
       else
     bindE (liftE (val_get provider ''path'' PNone)) (\<lambda>path.
       if \<not> truthy path then
         raise (InvalidActivity ''a process activity must have a path'')
       else
     bindE (shutil_which path) (\<lambda>path.
       if \<not> truthy path then
         bindE (format_val path) (\<lambda>path_text.
         bindE (format_val name) (\<lambda>name_text.
           raise (InvalidActivity
             (''path '' @ quoted path_text @ '' cannot be found, in activity '' @
              quoted name_text))))
       else
     bindE (os_access path) (\<lambda>executable.
       if \<not> executable then
         bindE (format_val path) (\<lambda>path_text.
         bindE (format_val name) (\<lambda>name_text.
           raise (InvalidActivity
             (''no access permission to '' @ quoted path_text @ '', in activity '' @
              quoted name_text))))
       else returnE ()))))))"

text \<open>The outcome of validating activity \<open>a\<close> in world \<open>w\<close>.\<close>

definition validate_result :: "os_world \<Rightarrow> pydict \<Rightarrow> error + unit" where
  "validate_result w a = fst (validate_process_activity \<lparr>activity_obj = a, world = w\<rparr>)"

subsection \<open>\<open>run_process_activity\<close> (lines 19 to 62)\<close>

text \<open>Line 33: \<open>int(activity.get("expected_return_code", 0))\<close>.\<close>

definition expected_code :: "pydict \<Rightarrow> error + int" where
  "expected_code activity = py_int (dict_get activity ''expected_return_code'' (PInt 0))"

text \<open>
  Lines 38 and 39. \<open>substitute\<close> is imported from \<open>chaoslib\<close>: a parameter.
\<close>

definition substituted ::
  "(pyval \<Rightarrow> pyval \<Rightarrow> pyval \<Rightarrow> pyval) \<Rightarrow> pyval \<Rightarrow> pyval \<Rightarrow> pyval \<Rightarrow> pyval" where
  "substituted substitute arguments configuration secrets =
     (if truthy configuration \<or> truthy secrets
      then substitute arguments configuration secrets else arguments)"

text \<open>
  Lines 36 to 43: the argument vector, the resolved executable first. \<open>shutil.which\<close>
  may return \<open>None\<close>, which is then the first element.
\<close>

definition build_args ::
  "os_world \<Rightarrow> (pyval \<Rightarrow> pyval \<Rightarrow> pyval \<Rightarrow> pyval) \<Rightarrow> pyval \<Rightarrow> pyval \<Rightarrow> pyval
     \<Rightarrow> error + pyval list" where
  "build_args w substitute provider configuration secrets =
     (case val_getitem provider ''arguments'' of
        Inl e \<Rightarrow> Inl e
      | Inr arguments \<Rightarrow>
     (case val_items (substituted substitute arguments configuration secrets) of
        Inl e \<Rightarrow> Inl e
      | Inr items \<Rightarrow>
     (case val_getitem provider ''path'' of
        Inl e \<Rightarrow> Inl e
      | Inr path \<Rightarrow>
     (case which_val w path of
        Inl e \<Rightarrow> Inl e
      | Inr exe \<Rightarrow> Inr (exe # flatten_arguments items)))))"

text \<open>
  Line 46: \<open>" ".join(args)\<close> is evaluated whatever the log level, and raises
  \<open>TypeError\<close> unless every element is a string. What reaches \<open>subprocess.run\<close> is a
  list of strings.
\<close>

fun str_args :: "pyval list \<Rightarrow> error + string list" where
  "str_args [] = Inr []"
| "str_args (PStr s # vs) = (case str_args vs of Inl e \<Rightarrow> Inl e | Inr ss \<Rightarrow> Inr (s # ss))"
| "str_args (v # vs) = Inl TypeError"

text \<open>The message of lines 56 to 60.\<close>

definition failure_message :: "int \<Rightarrow> int \<Rightarrow> string \<Rightarrow> string \<Rightarrow> string" where
  "failure_message c e out err =
     ''process activity failed with return code '' @ str_int c @
     '' (expected '' @ str_int e @ '')'' @ [CHR 0x0A] @
     ''STDOUT: '' @ out @ [CHR 0x0A] @
     ''STDERR: '' @ err"

text \<open>
  Lines 45 to 62: only \<open>TimeoutExpired\<close> is caught; any other exception of
  \<open>subprocess.run\<close> goes to the caller as it is.
\<close>

fun classify :: "int \<Rightarrow> proc_outcome \<Rightarrow> error + (int \<times> string \<times> string)" where
  "classify expected TimeoutExpired =
     Inl (FailedActivity ''process activity took too long to complete'')"
| "classify expected (Raised cls) = Inl (OSLevelError cls)"
| "classify expected (Completed returncode out err) =
     (if expected \<noteq> returncode
      then Inl (FailedActivity (failure_message returncode expected out err))
      else Inr (returncode, out, err))"

definition run_process_activity ::
  "os_world \<Rightarrow> (pyval \<Rightarrow> pyval \<Rightarrow> pyval \<Rightarrow> pyval) \<Rightarrow> pydict \<Rightarrow> pyval \<Rightarrow> pyval
     \<Rightarrow> error + (int \<times> string \<times> string)" where
  "run_process_activity w substitute activity configuration secrets =
     (case expected_code activity of
        Inl e \<Rightarrow> Inl e
      | Inr expected_return_code \<Rightarrow>
     (case getitem activity ''provider'' of
        Inl e \<Rightarrow> Inl e
      | Inr provider \<Rightarrow>
     (case val_get provider ''timeout'' PNone of
        Inl e \<Rightarrow> Inl e
      | Inr timeout \<Rightarrow>
     (case build_args w substitute provider configuration secrets of
        Inl e \<Rightarrow> Inl e
      | Inr args \<Rightarrow>
     (case str_args args of
        Inl e \<Rightarrow> Inl e
      | Inr argv \<Rightarrow> classify expected_return_code (subprocess_run w argv timeout))))))"

subsection \<open>A small world and some activities, for concrete runs\<close>

text \<open>
  Three programs are on the search path. \<open>ls\<close> and \<open>false\<close> may be executed,
  \<open>vault\<close> may not. A process given a timeout does not end in time; otherwise
  \<open>/bin/false\<close> ends with code 1 and every other program with code 0.
\<close>

definition example_run :: "string list \<Rightarrow> pyval \<Rightarrow> proc_outcome" where
  "example_run argv timeout =
     (case argv of
        [] \<Rightarrow> Raised ''IndexError''
      | exe # rest \<Rightarrow>
          if timeout \<noteq> PNone then TimeoutExpired
          else if exe = ''/bin/false'' then Completed 1 ''some output'' ''it failed''
          else Completed 0 ''some output'' [])"

definition example_world :: os_world where
  "example_world =
     \<lparr> which = map_of [(''ls'', ''/bin/ls''), (''false'', ''/bin/false''), (''vault'', ''/opt/vault'')],
       access_x = (\<lambda>p. p = ''/bin/ls'' \<or> p = ''/bin/false''),
       subprocess_run = example_run,
       repr_of = (\<lambda>v. ''?'') \<rparr>"

text \<open>A substitution that replaces every value of the arguments by \<open>"S"\<close>.\<close>

definition example_substitute :: "pyval \<Rightarrow> pyval \<Rightarrow> pyval \<Rightarrow> pyval" where
  "example_substitute arguments configuration secrets =
     (case arguments of
        PDict kvs \<Rightarrow> PDict (map (\<lambda>(k, v). (k, PStr ''S'')) kvs)
      | v \<Rightarrow> v)"

definition activity_of :: "string \<Rightarrow> pydict \<Rightarrow> pydict \<Rightarrow> pydict" where
  "activity_of path extra_provider extra =
     [(PStr ''name'', PStr ''probe''),
      (PStr ''provider'',
         PDict ([(PStr ''path'', PStr path),
                 (PStr ''arguments'', PDict [(PStr ''--name'', PStr ''x'')])] @ extra_provider))]
     @ extra"

text \<open>
  A second world, in which every program ends with code 0 and prints its argument
  vector, the elements separated by single spaces.
\<close>

fun join_spaces :: "string list \<Rightarrow> string" where
  "join_spaces [] = []"
| "join_spaces [s] = s"
| "join_spaces (s # t # ss) = s @ '' '' @ join_spaces (t # ss)"

definition echo_world :: os_world where
  "echo_world =
     example_world \<lparr> subprocess_run := (\<lambda>argv timeout. Completed 0 (join_spaces argv) []) \<rparr>"

subsection \<open>Activities of the data model\<close>

text \<open>
  An activity as the engine builds it: it has a name, its provider is a dictionary, and
  the provider's path, when there is one, is a string (or a value that counts as
  false, which \<open>validate_process_activity\<close> rejects before it is used).
\<close>

definition well_formed :: "pydict \<Rightarrow> bool" where
  "well_formed a =
     (case map_of a (PStr ''name'') of
        None \<Rightarrow> False
      | Some name \<Rightarrow>
          (case map_of a (PStr ''provider'') of
             Some (PDict prov) \<Rightarrow>
               (case dict_get prov ''path'' PNone of PStr p \<Rightarrow> True | v \<Rightarrow> \<not> truthy v)
           | _ \<Rightarrow> False))"

definition example_state :: pystate where
  "example_state = \<lparr>activity_obj = activity_of ''vault'' [] [], world = example_world\<rparr>"

section \<open>Claims\<close>

subsection \<open>What \<open>validate_process_activity\<close> computes\<close>

lemmas py_defs = returnE_def raise_def bindE_def liftE_def activity_getitem_def
  activity_get_def shutil_which_def os_access_def format_val_def

text \<open>No statement of the function writes to the state.\<close>

lemma validate_frame: "snd (validate_process_activity s) = s"
  by (simp add: validate_process_activity_def py_defs split: sum.splits)

text \<open>
  With a name and a dictionary as provider, the outcome is the first of the four
  \<open>raise\<close> statements whose condition holds, in the order of the source.
\<close>

lemma validate_result_unfold:
  assumes "map_of a (PStr ''name'') = Some name"
      and "map_of a (PStr ''provider'') = Some (PDict prov)"
  shows "validate_result w a =
     (if truthy (dict_get a ''expected_return_code'' PNone)
         \<and> \<not> isinstance_int (dict_get a ''expected_return_code'' PNone)
      then Inl (InvalidActivity ''return code of a process activity must be an integer'')
      else if \<not> truthy (dict_get prov ''path'' PNone)
      then Inl (InvalidActivity ''a process activity must have a path'')
      else (case which_val w (dict_get prov ''path'' PNone) of
              Inl e \<Rightarrow> Inl e
            | Inr found \<Rightarrow>
                if \<not> truthy found
                then Inl (InvalidActivity
                       (''path '' @ quoted (py_format (repr_of w) found) @
                        '' cannot be found, in activity '' @
                        quoted (py_format (repr_of w) name)))
                else (case access_val w found of
                        Inl e \<Rightarrow> Inl e
                      | Inr executable \<Rightarrow>
                          if \<not> executable
                          then Inl (InvalidActivity
                                 (''no access permission to '' @
                                  quoted (py_format (repr_of w) found) @
                                  '', in activity '' @
                                  quoted (py_format (repr_of w) name)))
                          else Inr ())))"
  using assms
  by (simp add: validate_result_def validate_process_activity_def py_defs getitem_def
           split: sum.splits)

lemma validate_outcome_kind:
  assumes "well_formed a"
  shows "validate_result w a = Inr () \<or> (\<exists>m. validate_result w a = Inl (InvalidActivity m))"
proof -
  from assms obtain name prov where
    name: "map_of a (PStr ''name'') = Some name" and
    prov: "map_of a (PStr ''provider'') = Some (PDict prov)" and
    path: "(case dict_get prov ''path'' PNone of PStr p \<Rightarrow> True | v \<Rightarrow> \<not> truthy v)"
    by (auto simp: well_formed_def split: option.splits pyval.splits)
  show ?thesis
  proof (cases "dict_get prov ''path'' PNone")
    case (PStr p)
    then show ?thesis
      by (simp add: validate_result_unfold [OF name prov] split: option.splits)
  qed (use path in \<open>simp_all add: validate_result_unfold [OF name prov]\<close>)
qed


subsection \<open>What \<open>run_process_activity\<close> computes\<close>

text \<open>
  When every statement before line 47 succeeds, the process is spawned with the argument
  vector and the timeout, and the result is decided by lines 51 to 62.
\<close>

lemma run_reaches_spawn:
  assumes "expected_code a = Inr e"
      and "getitem a ''provider'' = Inr provider"
      and "val_get provider ''timeout'' PNone = Inr timeout"
      and "build_args w substitute provider configuration secrets = Inr args"
      and "str_args args = Inr argv"
  shows "run_process_activity w substitute a configuration secrets =
           classify e (subprocess_run w argv timeout)"
  using assms by (simp add: run_process_activity_def)

text \<open>The parts of the failure message.\<close>

lemma sublist_skip: "sublist xs zs \<Longrightarrow> sublist xs (ys @ zs)"
  by (simp add: sublist_append)

lemma message_has_code: "sublist (str_int c) (failure_message c e out err)"
  unfolding failure_message_def by (rule sublist_appendI)

lemma message_has_expected: "sublist (str_int e) (failure_message c e out err)"
  unfolding failure_message_def
  by (rule sublist_skip, rule sublist_skip, rule sublist_appendI)

lemma message_has_stdout: "sublist out (failure_message c e out err)"
  unfolding failure_message_def
  by (rule sublist_skip, rule sublist_skip, rule sublist_skip, rule sublist_skip,
      rule sublist_skip, rule sublist_skip, rule sublist_appendI)

lemma message_has_stderr: "sublist err (failure_message c e out err)"
  unfolding failure_message_def
  by (rule sublist_skip, rule sublist_skip, rule sublist_skip, rule sublist_skip,
      rule sublist_skip, rule sublist_skip, rule sublist_skip, rule sublist_skip,
      rule sublist_skip, rule sublist_append_leftI)

text \<open>
  \<open>int\<close> raises \<open>TypeError\<close>, \<open>ValueError\<close> or \<open>OverflowError\<close>, nothing else. The
  double nearest to 3.9 is 8782019273372467 / 2^51.
\<close>

lemma py_int_error_kind:
  assumes "py_int v = Inl x"
  shows "x = TypeError \<or> x = ValueError \<or> x = OverflowError"
proof (cases v)
  case (PFloat f)
  with assms show ?thesis by (cases f) auto
next
  case (PStr s)
  with assms show ?thesis by (auto split: option.splits)
qed (use assms in auto)

lemma py_int_of_three_text: "py_int (PStr ''3'') = Inr 3"
  by code_simp

text \<open>
  White space around the digits: a space and the Unicode space 133 are dropped, the
  separator 28 is not.
\<close>

lemma py_int_white_space:
  "py_int (PStr '' 7 '') = Inr 7"
  "py_int (PStr [CHR 0x85, CHR ''7'']) = Inr 7"
  "py_int (PStr [CHR 0x1C, CHR ''7'']) = Inl ValueError"
  by code_simp+

lemma py_int_of_double_3_9:
  "py_int (PFloat (Finite (8782019273372467 / 2251799813685248))) = Inr 3"
  by (simp add: trunc_def floor_eq_iff)

subsection \<open>C1: flattening the arguments\<close>

text \<open>
  C1 (as amended). For the arguments mapping
  \<open>{"--flag": "", "--name": "x", "--skip": None}\<close> the flattening step emits every key
  and every value in iteration order and then removes the tokens that are \<open>None\<close> or the
  empty string. The filter works on tokens, not on pairs: the keys \<open>--flag\<close> and
  \<open>--skip\<close> stay, and the token sequence is \<open>["--flag", "--name", "x", "--skip"]\<close>.
\<close>

theorem C1_flatten_example:
  "flatten_arguments
     [(PStr ''--flag'', PStr ''''), (PStr ''--name'', PStr ''x''), (PStr ''--skip'', PNone)]
   = [PStr ''--flag'', PStr ''--name'', PStr ''x'', PStr ''--skip'']"
  by (simp add: flatten_arguments_def chain_items_def)

text \<open>
  C1 as the specification states it: the result would be \<open>["--name", "x"]\<close>. It is not.
\<close>

theorem C1_flatten_counterexample:
  "flatten_arguments
     [(PStr ''--flag'', PStr ''''), (PStr ''--name'', PStr ''x''), (PStr ''--skip'', PNone)]
   \<noteq> [PStr ''--name'', PStr ''x'']"
  by (simp add: flatten_arguments_def chain_items_def)

subsection \<open>C2: a return code that is not an integer\<close>

text \<open>
  C2 (as amended). For every activity (with a name and a provider) in which
  \<open>expected_return_code\<close> is present with a value that counts as true and is not of
  integer type, validation raises \<open>InvalidActivity\<close> with the message
  "return code of a process activity must be an integer". Line 82 tests the truth value
  before the type, so nothing is said here about values that count as false.
\<close>

theorem C2_truthy_non_integer_rejected:
  assumes name: "map_of a (PStr ''name'') = Some name"
      and provider: "map_of a (PStr ''provider'') = Some (PDict prov)"
      and present: "map_of a (PStr ''expected_return_code'') = Some v"
      and truthy: "truthy v"
      and not_int: "\<not> isinstance_int v"
  shows "validate_result w a =
           Inl (InvalidActivity ''return code of a process activity must be an integer'')"
  using present truthy not_int
  by (simp add: validate_result_unfold [OF name provider] dict_get_def)

theorem C2_truthy_non_integer_rejected_witness:
  "validate_result example_world
     (activity_of ''ls'' [] [(PStr ''expected_return_code'', PStr ''0'')]) =
   Inl (InvalidActivity ''return code of a process activity must be an integer'')"
  using C2_truthy_non_integer_rejected
    [of "activity_of ''ls'' [] [(PStr ''expected_return_code'', PStr ''0'')]" "PStr ''probe''"
        "[(PStr ''path'', PStr ''ls''),
          (PStr ''arguments'', PDict [(PStr ''--name'', PStr ''x'')])]"
        "PStr ''0''" example_world]
  by (simp add: activity_of_def)

text \<open>
  C2 as the specification states it fails: the empty string is present, is not an
  integer, and validation of an otherwise valid activity returns normally.
\<close>

theorem C2_empty_string_counterexample:
  "map_of (activity_of ''ls'' [] [(PStr ''expected_return_code'', PStr [])])
     (PStr ''expected_return_code'') = Some (PStr [])
   \<and> \<not> isinstance_int (PStr [])
   \<and> validate_result example_world
       (activity_of ''ls'' [] [(PStr ''expected_return_code'', PStr [])]) = Inr ()"
  by (simp add: validate_result_def validate_process_activity_def py_defs activity_of_def
        getitem_def dict_get_def example_world_def)

subsection \<open>C3: the four checks, in order\<close>

text \<open>
  C3 (as amended). For every activity that has a name, whose provider is a mapping, and
  whose path is a string when it counts as true, validation returns nothing or raises
  \<open>InvalidActivity\<close>, and the outcome is decided by four checks in the order
  (1) \<open>expected_return_code\<close> counts as true and is not of integer type (the test of
  line 82), (2) path empty or absent, (3) path not resolved by \<open>shutil.which\<close>,
  (4) no execute permission: the first check that fails gives the error, and later
  checks are not reported.
\<close>

theorem C3_validate_checks_in_order:
  assumes name: "map_of a (PStr ''name'') = Some name"
      and provider: "map_of a (PStr ''provider'') = Some (PDict prov)"
      and path: "dict_get prov ''path'' PNone = path"
      and path_type: "\<not> truthy path \<or> path = PStr p"
      and code: "dict_get a ''expected_return_code'' PNone = expected_return_code"
  shows "validate_result w a =
     (if truthy expected_return_code \<and> \<not> isinstance_int expected_return_code
      then Inl (InvalidActivity ''return code of a process activity must be an integer'')
      else if \<not> truthy path
      then Inl (InvalidActivity ''a process activity must have a path'')
      else (case which w p of
              None \<Rightarrow>
                Inl (InvalidActivity
                  (''path '' @ quoted ''None'' @ '' cannot be found, in activity '' @
                   quoted (py_format (repr_of w) name)))
            | Some q \<Rightarrow>
                if q = []
                then Inl (InvalidActivity
                       (''path '' @ quoted [] @ '' cannot be found, in activity '' @
                        quoted (py_format (repr_of w) name)))
                else if \<not> access_x w q
                then Inl (InvalidActivity
                       (''no access permission to '' @ quoted q @ '', in activity '' @
                        quoted (py_format (repr_of w) name)))
                else Inr ()))
     \<and> (validate_result w a = Inr () \<or> (\<exists>m. validate_result w a = Inl (InvalidActivity m)))"
proof -
  have shape: "validate_result w a =
     (if truthy expected_return_code \<and> \<not> isinstance_int expected_return_code
      then Inl (InvalidActivity ''return code of a process activity must be an integer'')
      else if \<not> truthy path
      then Inl (InvalidActivity ''a process activity must have a path'')
      else (case which w p of
              None \<Rightarrow>
                Inl (InvalidActivity
                  (''path '' @ quoted ''None'' @ '' cannot be found, in activity '' @
                   quoted (py_format (repr_of w) name)))
            | Some q \<Rightarrow>
                if q = []
                then Inl (InvalidActivity
                       (''path '' @ quoted [] @ '' cannot be found, in activity '' @
                        quoted (py_format (repr_of w) name)))
                else if \<not> access_x w q
                then Inl (InvalidActivity
                       (''no access permission to '' @ quoted q @ '', in activity '' @
                        quoted (py_format (repr_of w) name)))
                else Inr ()))"
    using path path_type code
    by (auto simp: validate_result_unfold [OF name provider] split: option.splits)
  show ?thesis
    by (rule conjI, rule shape, subst shape, subst shape)
       (simp split: option.splits)
qed

theorem C3_validate_checks_in_order_witness:
  "validate_result example_world (activity_of ''vault'' [] []) =
     Inl (InvalidActivity
       (''no access permission to '' @ quoted ''/opt/vault'' @ '', in activity '' @
        quoted ''probe''))"
  using C3_validate_checks_in_order
    [of "activity_of ''vault'' [] []" "PStr ''probe''"
        "[(PStr ''path'', PStr ''vault''),
          (PStr ''arguments'', PDict [(PStr ''--name'', PStr ''x'')])]"
        "PStr ''vault''" "''vault''" PNone example_world]
  by (simp add: activity_of_def dict_get_def example_world_def)

text \<open>
  C3 as the specification states it fails in two ways. Its first check is "present but
  not an integer": the empty string is present and is not an integer, yet with an empty
  path the error reported is that of the second check. And "every activity" is too
  wide: without a name the function raises \<open>KeyError\<close>, with a provider that is not a
  mapping \<open>AttributeError\<close>, and with a path that is a number \<open>TypeError\<close>.
\<close>

theorem C3_checks_counterexample:
  "map_of (activity_of [] [] [(PStr ''expected_return_code'', PStr [])])
     (PStr ''expected_return_code'') = Some (PStr [])
   \<and> \<not> isinstance_int (PStr [])
   \<and> validate_result example_world
       (activity_of [] [] [(PStr ''expected_return_code'', PStr [])]) =
       Inl (InvalidActivity ''a process activity must have a path'')
   \<and> validate_result example_world [] = Inl (KeyError ''name'')
   \<and> validate_result example_world
       [(PStr ''name'', PStr ''probe''), (PStr ''provider'', PStr ''ls'')] =
       Inl AttributeError
   \<and> validate_result example_world
       [(PStr ''name'', PStr ''probe''), (PStr ''provider'', PDict [(PStr ''path'', PInt 5)])] =
       Inl TypeError"
  by (simp add: validate_result_def validate_process_activity_def py_defs activity_of_def
        getitem_def dict_get_def example_world_def)

subsection \<open>C4: the timeout\<close>

text \<open>
  C4. When the process has been spawned and \<open>subprocess.run\<close> reports that the
  timeout expired before the process ended, \<open>run_process_activity\<close> raises
  \<open>FailedActivity\<close> with the message "process activity took too long to complete";
  an error is the whole result, so no output of the process is returned. This holds for
  whatever timeout the provider specifies.
\<close>

theorem C4_timeout_fails:
  assumes "expected_code a = Inr e"
      and "getitem a ''provider'' = Inr provider"
      and "val_get provider ''timeout'' PNone = Inr timeout"
      and "build_args w substitute provider configuration secrets = Inr args"
      and "str_args args = Inr argv"
      and "subprocess_run w argv timeout = TimeoutExpired"
  shows "run_process_activity w substitute a configuration secrets =
           Inl (FailedActivity ''process activity took too long to complete'')"
  using run_reaches_spawn [OF assms(1-5)] assms(6) by simp

theorem C4_timeout_fails_witness:
  "subprocess_run example_world [''/bin/ls'', ''--name'', ''x''] (PInt 1) = TimeoutExpired
   \<and> run_process_activity example_world example_substitute
       (activity_of ''ls'' [(PStr ''timeout'', PInt 1)] []) (PDict []) (PDict []) =
     Inl (FailedActivity ''process activity took too long to complete'')"
  using C4_timeout_fails
    [of "activity_of ''ls'' [(PStr ''timeout'', PInt 1)] []" 0
        "PDict [(PStr ''path'', PStr ''ls''),
                (PStr ''arguments'', PDict [(PStr ''--name'', PStr ''x'')]),
                (PStr ''timeout'', PInt 1)]"
        "PInt 1" example_world example_substitute "PDict []" "PDict []"
        "[PStr ''/bin/ls'', PStr ''--name'', PStr ''x'']" "[''/bin/ls'', ''--name'', ''x'']"]
  by (simp add: activity_of_def expected_code_def getitem_def dict_get_def build_args_def
        substituted_def flatten_arguments_def chain_items_def example_world_def
        example_run_def)

subsection \<open>C5: the expected return code\<close>

text \<open>
  C5. When the process ends with a return code equal to the activity's
  \<open>expected_return_code\<close>, \<open>run_process_activity\<close> returns the triple of return code,
  standard output and standard error, and raises nothing. The expected return code is
  0 when the activity has none, the integer itself when the activity holds an integer,
  and in general the integer that \<open>int\<close> makes of the value the activity holds.
\<close>

theorem C5_expected_code_returns_triple:
  assumes "getitem a ''provider'' = Inr provider"
      and "val_get provider ''timeout'' PNone = Inr timeout"
      and "build_args w substitute provider configuration secrets = Inr args"
      and "str_args args = Inr argv"
      and "subprocess_run w argv timeout = Completed c out err"
  shows "(map_of a (PStr ''expected_return_code'') = None \<and> c = 0
            \<longrightarrow> run_process_activity w substitute a configuration secrets = Inr (c, out, err))
       \<and> (map_of a (PStr ''expected_return_code'') = Some (PInt c)
            \<longrightarrow> run_process_activity w substitute a configuration secrets = Inr (c, out, err))
       \<and> (map_of a (PStr ''expected_return_code'') = Some v \<and> py_int v = Inr c
            \<longrightarrow> run_process_activity w substitute a configuration secrets = Inr (c, out, err))"
proof -
  have spawned: "run_process_activity w substitute a configuration secrets = Inr (c, out, err)"
    if "expected_code a = Inr c"
    using run_reaches_spawn [OF that assms(1-4)] assms(5) by simp
  have absent: "expected_code a = Inr c"
    if "map_of a (PStr ''expected_return_code'') = None" "c = 0"
    using that by (simp add: expected_code_def dict_get_def)
  have integer: "expected_code a = Inr c"
    if "map_of a (PStr ''expected_return_code'') = Some (PInt c)"
    using that by (simp add: expected_code_def dict_get_def)
  have converted: "expected_code a = Inr c"
    if "map_of a (PStr ''expected_return_code'') = Some v" "py_int v = Inr c"
    using that by (simp add: expected_code_def dict_get_def)
  from spawned absent integer converted show ?thesis by blast
qed

theorem C5_expected_code_returns_triple_witness:
  "map_of (activity_of ''ls'' [] []) (PStr ''expected_return_code'') = None
   \<and> subprocess_run example_world [''/bin/ls'', ''--name'', ''x''] PNone =
       Completed 0 ''some output'' []
   \<and> run_process_activity example_world example_substitute
       (activity_of ''ls'' [] []) (PDict []) (PDict []) = Inr (0, ''some output'', [])
   \<and> map_of (activity_of ''false'' [] [(PStr ''expected_return_code'', PInt 1)])
       (PStr ''expected_return_code'') = Some (PInt 1)
   \<and> subprocess_run example_world [''/bin/false'', ''--name'', ''x''] PNone =
       Completed 1 ''some output'' ''it failed''
   \<and> run_process_activity example_world example_substitute
       (activity_of ''false'' [] [(PStr ''expected_return_code'', PInt 1)])
       (PDict []) (PDict []) = Inr (1, ''some output'', ''it failed'')"
proof -
  have ls: "getitem (activity_of ''ls'' [] []) ''provider'' =
       Inr (PDict [(PStr ''path'', PStr ''ls''),
                   (PStr ''arguments'', PDict [(PStr ''--name'', PStr ''x'')])])"
    by (simp add: activity_of_def getitem_def)
  have false: "getitem (activity_of ''false'' [] [(PStr ''expected_return_code'', PInt 1)])
       ''provider'' =
       Inr (PDict [(PStr ''path'', PStr ''false''),
                   (PStr ''arguments'', PDict [(PStr ''--name'', PStr ''x'')])])"
    by (simp add: activity_of_def getitem_def)
  have no_timeout: "val_get (PDict [(PStr ''path'', PStr p),
                   (PStr ''arguments'', PDict [(PStr ''--name'', PStr ''x'')])])
                   ''timeout'' PNone = Inr PNone" for p
    by (simp add: dict_get_def)
  have args_ls: "build_args example_world example_substitute
       (PDict [(PStr ''path'', PStr ''ls''),
               (PStr ''arguments'', PDict [(PStr ''--name'', PStr ''x'')])])
       (PDict []) (PDict []) = Inr [PStr ''/bin/ls'', PStr ''--name'', PStr ''x'']"
    by (simp add: build_args_def getitem_def substituted_def flatten_arguments_def
          chain_items_def example_world_def)
  have args_false: "build_args example_world example_substitute
       (PDict [(PStr ''path'', PStr ''false''),
               (PStr ''arguments'', PDict [(PStr ''--name'', PStr ''x'')])])
       (PDict []) (PDict []) = Inr [PStr ''/bin/false'', PStr ''--name'', PStr ''x'']"
    by (simp add: build_args_def getitem_def substituted_def flatten_arguments_def
          chain_items_def example_world_def)
  have argv_ls: "str_args [PStr ''/bin/ls'', PStr ''--name'', PStr ''x''] =
       Inr [''/bin/ls'', ''--name'', ''x'']"
    by simp
  have argv_false: "str_args [PStr ''/bin/false'', PStr ''--name'', PStr ''x''] =
       Inr [''/bin/false'', ''--name'', ''x'']"
    by simp
  have out_ls: "subprocess_run example_world [''/bin/ls'', ''--name'', ''x''] PNone =
       Completed 0 ''some output'' []"
    by (simp add: example_world_def example_run_def)
  have out_false: "subprocess_run example_world [''/bin/false'', ''--name'', ''x''] PNone =
       Completed 1 ''some output'' ''it failed''"
    by (simp add: example_world_def example_run_def)
  have absent: "map_of (activity_of ''ls'' [] []) (PStr ''expected_return_code'') = None"
    by (simp add: activity_of_def)
  have one: "map_of (activity_of ''false'' [] [(PStr ''expected_return_code'', PInt 1)])
       (PStr ''expected_return_code'') = Some (PInt 1)"
    by (simp add: activity_of_def)
  show ?thesis
    using C5_expected_code_returns_triple [OF ls no_timeout args_ls argv_ls out_ls]
      C5_expected_code_returns_triple [OF false no_timeout args_false argv_false out_false]
      absent one out_ls out_false
    by simp
qed

subsection \<open>C6: another return code\<close>

text \<open>
  C6. When the process ends with a return code different from the expected one,
  \<open>run_process_activity\<close> raises \<open>FailedActivity\<close>, and the message contains the
  actual return code, the expected return code, the whole standard output and the whole
  standard error.
\<close>

theorem C6_other_code_fails_with_details:
  assumes "py_int (dict_get a ''expected_return_code'' (PInt 0)) = Inr e"
      and "getitem a ''provider'' = Inr provider"
      and "val_get provider ''timeout'' PNone = Inr timeout"
      and "build_args w substitute provider configuration secrets = Inr args"
      and "str_args args = Inr argv"
      and "subprocess_run w argv timeout = Completed c out err"
      and "c \<noteq> e"
  shows "run_process_activity w substitute a configuration secrets =
           Inl (FailedActivity (failure_message c e out err))
         \<and> sublist (str_int c) (failure_message c e out err)
         \<and> sublist (str_int e) (failure_message c e out err)
         \<and> sublist out (failure_message c e out err)
         \<and> sublist err (failure_message c e out err)"
proof -
  have "expected_code a = Inr e"
    using assms(1) by (simp add: expected_code_def)
  from run_reaches_spawn [OF this assms(2-5)] assms(6,7) show ?thesis
    by (simp add: message_has_code message_has_expected message_has_stdout
          message_has_stderr)
qed

theorem C6_other_code_fails_with_details_witness:
  "subprocess_run example_world [''/bin/false'', ''--name'', ''x''] PNone =
       Completed 1 ''some output'' ''it failed''
   \<and> run_process_activity example_world example_substitute
       (activity_of ''false'' [] []) (PDict []) (PDict []) =
     Inl (FailedActivity
       (''process activity failed with return code 1 (expected 0)'' @ [CHR 0x0A] @
        ''STDOUT: some output'' @ [CHR 0x0A] @ ''STDERR: it failed''))
   \<and> sublist ''it failed'' (failure_message 1 0 ''some output'' ''it failed'')"
proof -
  have msg: "failure_message 1 0 ''some output'' ''it failed'' =
       ''process activity failed with return code 1 (expected 0)'' @ [CHR 0x0A] @
        ''STDOUT: some output'' @ [CHR 0x0A] @ ''STDERR: it failed''"
    by code_simp
  show ?thesis
    using C6_other_code_fails_with_details
    [of "activity_of ''false'' [] []" 0
        "PDict [(PStr ''path'', PStr ''false''),
                (PStr ''arguments'', PDict [(PStr ''--name'', PStr ''x'')])]"
        PNone example_world example_substitute "PDict []" "PDict []"
        "[PStr ''/bin/false'', PStr ''--name'', PStr ''x'']"
        "[''/bin/false'', ''--name'', ''x'']" 1 "''some output''" "''it failed''"]
    by (simp add: msg activity_of_def expected_code_def getitem_def dict_get_def
        build_args_def substituted_def flatten_arguments_def chain_items_def
        example_world_def example_run_def)
qed

subsection \<open>C7: when the arguments are substituted\<close>

text \<open>
  C7. Take an activity whose line 33 succeeds, whose provider is a mapping with
  arguments and a path, and whose path \<open>shutil.which\<close> accepts. If the configuration
  or the secrets count as true (a non-empty mapping), \<open>run_process_activity\<close> flattens
  the result of \<open>substitute\<close> on the provider's arguments, spawns the process on the
  vector so obtained, and judges its outcome. If neither counts as true, it does the
  same with the provider's arguments as they are, and its result does not depend on
  \<open>substitute\<close> at all.
\<close>

theorem C7_substitution_gate:
  assumes code: "py_int (dict_get a ''expected_return_code'' (PInt 0)) = Inr e"
      and prov: "map_of a (PStr ''provider'') = Some (PDict prov)"
      and args: "map_of prov (PStr ''arguments'') = Some arguments"
      and path: "map_of prov (PStr ''path'') = Some path"
      and exe: "which_val w path = Inr exe"
  shows "(truthy configuration \<or> truthy secrets \<longrightarrow>
            run_process_activity w substitute a configuration secrets =
              (case val_items (substitute arguments configuration secrets) of
                 Inl x \<Rightarrow> Inl x
               | Inr items \<Rightarrow>
                   (case str_args (exe # flatten_arguments items) of
                      Inl x \<Rightarrow> Inl x
                    | Inr argv \<Rightarrow>
                        classify e (subprocess_run w argv (dict_get prov ''timeout'' PNone)))))
       \<and> (\<not> truthy configuration \<and> \<not> truthy secrets \<longrightarrow>
            run_process_activity w substitute a configuration secrets =
              (case val_items arguments of
                 Inl x \<Rightarrow> Inl x
               | Inr items \<Rightarrow>
                   (case str_args (exe # flatten_arguments items) of
                      Inl x \<Rightarrow> Inl x
                    | Inr argv \<Rightarrow>
                        classify e (subprocess_run w argv (dict_get prov ''timeout'' PNone))))
            \<and> run_process_activity w substitute a configuration secrets =
              run_process_activity w other_substitute a configuration secrets)"
  using assms
  by (auto simp: run_process_activity_def expected_code_def getitem_def build_args_def
        substituted_def split: sum.splits)

theorem C7_substitution_gate_witness:
  "run_process_activity echo_world example_substitute (activity_of ''ls'' [] [])
     (PDict [(PStr ''region'', PStr ''eu'')]) (PDict []) = Inr (0, ''/bin/ls --name S'', [])
   \<and> run_process_activity echo_world example_substitute (activity_of ''ls'' [] [])
     (PDict []) (PDict []) = Inr (0, ''/bin/ls --name x'', [])"
proof -
  have code: "py_int (dict_get (activity_of ''ls'' [] []) ''expected_return_code'' (PInt 0)) =
      Inr 0"
    by (simp add: activity_of_def dict_get_def)
  have prov: "map_of (activity_of ''ls'' [] []) (PStr ''provider'') =
      Some (PDict [(PStr ''path'', PStr ''ls''),
                   (PStr ''arguments'', PDict [(PStr ''--name'', PStr ''x'')])])"
    by (simp add: activity_of_def)
  have args: "map_of [(PStr ''path'', PStr ''ls''),
                   (PStr ''arguments'', PDict [(PStr ''--name'', PStr ''x'')])]
      (PStr ''arguments'') = Some (PDict [(PStr ''--name'', PStr ''x'')])"
    by simp
  have path: "map_of [(PStr ''path'', PStr ''ls''),
                   (PStr ''arguments'', PDict [(PStr ''--name'', PStr ''x'')])]
      (PStr ''path'') = Some (PStr ''ls'')"
    by simp
  have exe: "which_val echo_world (PStr ''ls'') = Inr (PStr ''/bin/ls'')"
    by (simp add: echo_world_def example_world_def)
  show ?thesis
    using C7_substitution_gate [OF code prov args path exe,
        of "PDict [(PStr ''region'', PStr ''eu'')]" "PDict []" example_substitute]
      C7_substitution_gate [OF code prov args path exe,
        of "PDict []" "PDict []" example_substitute]
    by (simp add: example_substitute_def flatten_arguments_def chain_items_def
          dict_get_def echo_world_def)
qed

subsection \<open>C8: validation is repeatable and changes nothing\<close>

text \<open>
  C8. A call of \<open>validate_process_activity\<close> leaves the activity and the world as they
  were, and a second call in the state the first one left gives the same outcome (the
  same error with the same message, or success both times); for an activity of the data
  model that outcome is success or \<open>InvalidActivity\<close>.
\<close>

theorem C8_validate_idempotent:
  assumes "validate_process_activity s = (r, s')"
  shows "s' = s \<and> validate_process_activity s' = (r, s')
         \<and> (well_formed (activity_obj s) \<longrightarrow> r = Inr () \<or> (\<exists>m. r = Inl (InvalidActivity m)))"
proof -
  have same: "s' = s"
    using validate_frame [of s] assms by simp
  have kind: "r = Inr () \<or> (\<exists>m. r = Inl (InvalidActivity m))" if "well_formed (activity_obj s)"
    using validate_outcome_kind [OF that, of "world s"] assms
    by (cases s) (auto simp: validate_result_def)
  from same assms kind show ?thesis by simp
qed

theorem C8_validate_idempotent_witness:
  "well_formed (activity_obj example_state)
   \<and> snd (validate_process_activity example_state) = example_state
   \<and> validate_process_activity (snd (validate_process_activity example_state))
       = validate_process_activity example_state
   \<and> fst (validate_process_activity example_state) =
       Inl (InvalidActivity
         (''no access permission to '' @ quoted ''/opt/vault'' @ '', in activity '' @
          quoted ''probe''))"
proof -
  have run: "validate_process_activity example_state =
    (Inl (InvalidActivity
         (''no access permission to '' @ quoted ''/opt/vault'' @ '', in activity '' @
          quoted ''probe'')), example_state)"
    by (simp add: example_state_def validate_process_activity_def py_defs activity_of_def
          getitem_def dict_get_def example_world_def)
  have wf: "well_formed (activity_obj example_state)"
    by (simp add: example_state_def well_formed_def activity_of_def dict_get_def)
  show ?thesis
    using C8_validate_idempotent [OF run] wf run by simp
qed

subsection \<open>C9: the message for a path that cannot be found\<close>

text \<open>
  C9 (as amended). When validation reaches the resolvability check and
  \<open>shutil.which\<close> finds nothing, the message is exactly
  "path 'None' cannot be found, in activity '<name>'": the variable \<open>path\<close> holds the
  result of the search by then, and the declared path is not written into the message.
  The message is the same whatever the declared path was.
\<close>

theorem C9_unresolvable_message:
  assumes name: "map_of a (PStr ''name'') = Some name"
      and provider: "map_of a (PStr ''provider'') = Some (PDict prov)"
      and code: "\<not> truthy (dict_get a ''expected_return_code'' PNone)
                 \<or> isinstance_int (dict_get a ''expected_return_code'' PNone)"
      and path: "dict_get prov ''path'' PNone = PStr p"
      and nonempty: "p \<noteq> []"
      and unresolved: "which w p = None"
  shows "validate_result w a =
           Inl (InvalidActivity
             (''path '' @ quoted ''None'' @ '' cannot be found, in activity '' @
              quoted (py_format (repr_of w) name)))"
  using code path nonempty unresolved
  by (auto simp: validate_result_unfold [OF name provider])

theorem C9_unresolvable_message_witness:
  "validate_result example_world (activity_of ''nope'' [] []) =
     Inl (InvalidActivity
       (''path '' @ quoted ''None'' @ '' cannot be found, in activity '' @ quoted ''probe''))"
  using C9_unresolvable_message
    [of "activity_of ''nope'' [] []" "PStr ''probe''"
        "[(PStr ''path'', PStr ''nope''),
          (PStr ''arguments'', PDict [(PStr ''--name'', PStr ''x'')])]"
        "''nope''" example_world]
  by (simp add: activity_of_def dict_get_def example_world_def)

text \<open>
  C9 as stated adds that the message never contains the declared path. It can, by
  coincidence: an activity named after the program it runs has its path in the message,
  inside the name.
\<close>

theorem C9_declared_path_in_message_counterexample:
  "which example_world ''probe'' = None
   \<and> validate_result example_world (activity_of ''probe'' [] []) =
       Inl (InvalidActivity
         (''path '' @ quoted ''None'' @ '' cannot be found, in activity '' @ quoted ''probe''))
   \<and> sublist ''probe''
       (''path '' @ quoted ''None'' @ '' cannot be found, in activity '' @ quoted ''probe'')"
proof -
  have "sublist ''probe''
       ((''path '' @ quoted ''None'' @ '' cannot be found, in activity '' @ [CHR 0x27]) @
        ''probe'' @ [CHR 0x27])"
    by (rule sublist_appendI)
  then have "sublist ''probe''
       (''path '' @ quoted ''None'' @ '' cannot be found, in activity '' @ quoted ''probe'')"
    by (simp add: quoted_def)
  then show ?thesis
    by (simp add: validate_result_def validate_process_activity_def py_defs activity_of_def
        getitem_def dict_get_def example_world_def)
qed

subsection \<open>C10: the expected return code is converted with \<open>int\<close>\<close>

text \<open>
  C10. Line 33 converts \<open>expected_return_code\<close> with \<open>int\<close> before anything else
  is done. When the value is present and \<open>int\<close> accepts it, the return code of the
  process is compared with the converted integer, which also appears in the failure
  message: with \<open>"3"\<close> and with the float 3.9 that integer is 3. When \<open>int\<close> rejects
  the value, \<open>run_process_activity\<close> raises the error of \<open>int\<close>, which is neither
  \<open>InvalidActivity\<close> nor \<open>FailedActivity\<close>.
\<close>

theorem C10_expected_code_is_converted:
  assumes present: "map_of a (PStr ''expected_return_code'') = Some v"
  shows "(py_int v = Inr e
            \<and> getitem a ''provider'' = Inr provider
            \<and> val_get provider ''timeout'' PNone = Inr timeout
            \<and> build_args w substitute provider configuration secrets = Inr args
            \<and> str_args args = Inr argv
            \<and> subprocess_run w argv timeout = Completed c out err
          \<longrightarrow> run_process_activity w substitute a configuration secrets =
                (if c = e then Inr (c, out, err)
                 else Inl (FailedActivity (failure_message c e out err))))
       \<and> (py_int v = Inl x
          \<longrightarrow> run_process_activity w substitute a configuration secrets = Inl x
              \<and> (\<forall>m. x \<noteq> InvalidActivity m) \<and> (\<forall>m. x \<noteq> FailedActivity m))
       \<and> py_int (PStr ''3'') = Inr 3
       \<and> py_int (PFloat (Finite (8782019273372467 / 2251799813685248))) = Inr 3"
proof -
  have code: "expected_code a = py_int v"
    using present by (simp add: expected_code_def dict_get_def)
  have ok: "run_process_activity w substitute a configuration secrets =
                (if c = e then Inr (c, out, err)
                 else Inl (FailedActivity (failure_message c e out err)))"
    if "py_int v = Inr e" "getitem a ''provider'' = Inr provider"
       "val_get provider ''timeout'' PNone = Inr timeout"
       "build_args w substitute provider configuration secrets = Inr args"
       "str_args args = Inr argv" "subprocess_run w argv timeout = Completed c out err"
    using run_reaches_spawn [of a e provider timeout w substitute configuration secrets args argv]
      that code by auto
  have bad: "run_process_activity w substitute a configuration secrets = Inl x
              \<and> (\<forall>m. x \<noteq> InvalidActivity m) \<and> (\<forall>m. x \<noteq> FailedActivity m)"
    if "py_int v = Inl x"
    using that code py_int_error_kind [OF that]
    by (auto simp: run_process_activity_def)
  from ok bad py_int_of_three_text py_int_of_double_3_9 show ?thesis
    by blast
qed

theorem C10_expected_code_is_converted_witness:
  "py_int (PStr ''1'') = Inr 1
   \<and> run_process_activity example_world example_substitute
       (activity_of ''false'' [] [(PStr ''expected_return_code'', PStr ''1'')])
       (PDict []) (PDict []) = Inr (1, ''some output'', ''it failed'')
   \<and> py_int (PStr ''one'') = Inl ValueError
   \<and> run_process_activity example_world example_substitute
       (activity_of ''false'' [] [(PStr ''expected_return_code'', PStr ''one'')])
       (PDict []) (PDict []) = Inl ValueError"
proof -
  have one: "py_int (PStr ''1'') = Inr 1" by code_simp
  have word: "py_int (PStr ''one'') = Inl ValueError" by code_simp
  have spawned:
    "getitem (activity_of ''false'' [] [(PStr ''expected_return_code'', PStr ''1'')])
       ''provider'' =
       Inr (PDict [(PStr ''path'', PStr ''false''),
                   (PStr ''arguments'', PDict [(PStr ''--name'', PStr ''x'')])])
     \<and> val_get (PDict [(PStr ''path'', PStr ''false''),
                   (PStr ''arguments'', PDict [(PStr ''--name'', PStr ''x'')])])
          ''timeout'' PNone = Inr PNone
     \<and> build_args example_world example_substitute
          (PDict [(PStr ''path'', PStr ''false''),
                   (PStr ''arguments'', PDict [(PStr ''--name'', PStr ''x'')])])
          (PDict []) (PDict []) = Inr [PStr ''/bin/false'', PStr ''--name'', PStr ''x'']
     \<and> str_args [PStr ''/bin/false'', PStr ''--name'', PStr ''x''] =
          Inr [''/bin/false'', ''--name'', ''x'']
     \<and> subprocess_run example_world [''/bin/false'', ''--name'', ''x''] PNone =
          Completed 1 ''some output'' ''it failed''"
    by (simp add: activity_of_def getitem_def dict_get_def build_args_def substituted_def
          flatten_arguments_def chain_items_def example_world_def example_run_def)
  have p1: "map_of (activity_of ''false'' [] [(PStr ''expected_return_code'', PStr ''1'')])
              (PStr ''expected_return_code'') = Some (PStr ''1'')"
    by (simp add: activity_of_def)
  have p2: "map_of (activity_of ''false'' [] [(PStr ''expected_return_code'', PStr ''one'')])
              (PStr ''expected_return_code'') = Some (PStr ''one'')"
    by (simp add: activity_of_def)
  show ?thesis
    using C10_expected_code_is_converted [OF p1, of 1
        "PDict [(PStr ''path'', PStr ''false''),
                (PStr ''arguments'', PDict [(PStr ''--name'', PStr ''x'')])]"
        PNone example_world example_substitute "PDict []" "PDict []"
        "[PStr ''/bin/false'', PStr ''--name'', PStr ''x'']"
        "[''/bin/false'', ''--name'', ''x'']" 1 "''some output''" "''it failed''" ValueError]
      C10_expected_code_is_converted [OF p2, of 0 PNone PNone example_world
        example_substitute "PDict []" "PDict []" "[]" "[]" 0 "[]" "[]" ValueError]
      one word spawned
    by simp
qed

end
